theory Spec2Isabelle
  imports Complex_Main "HOL-Library.Monad_Syntax"
begin

section \<open>The proctoring session of app3.py\<close>

text \<open>
  A shallow embedding of \<^verbatim>\<open>ProctoringSession\<close>. Python floats are modelled as
  mathematical reals (no rounding, no infinities); the one place where the source can
  divide by zero, the cosine similarity, has an explicit not-a-number outcome. The
  three collaborators (image decoder, face model, phone model) and the clock are
  parameters of every call.
\<close>

subsection \<open>Configuration constants\<close>

definition AUTHORIZED_THRESHOLD :: real where "AUTHORIZED_THRESHOLD = 4 / 10"
definition FOCUS_ALERT_TIME :: real where "FOCUS_ALERT_TIME = 3"
definition PHONE_ALERT_SECONDS :: real where "PHONE_ALERT_SECONDS = 1"
definition FOCUS_THRESHOLD :: real where "FOCUS_THRESHOLD = 60"
definition FACE_CHECK_INTERVAL :: real where "FACE_CHECK_INTERVAL = 5"
definition PHONE_CHECK_INTERVAL :: real where "PHONE_CHECK_INTERVAL = 25 / 10"
definition W_FACE :: real where "W_FACE = 40 / 100"
definition W_HEAD :: real where "W_HEAD = 50 / 100"
definition W_PHONE :: real where "W_PHONE = 10 / 100"

subsection \<open>Data\<close>

type_synonym bytes = "nat list"

text \<open>A decoded frame: opaque pixel data, only handed on to the two models.\<close>

datatype image = Image "nat list"

text \<open>Exceptions that the try blocks of the session can catch.\<close>

datatype exn =
    TypeError     \<comment> \<open>numpy applied to \<^verbatim>\<open>None\<close>\<close>
  | ValueError    \<comment> \<open>numpy dot product of vectors of different lengths\<close>
  | ModelError    \<comment> \<open>any exception raised by a collaborator\<close>

text \<open>
  A detected face as the face model returns it: \<^verbatim>\<open>embedding\<close> is a vector of
  floats, \<^verbatim>\<open>kps\<close> may be \<^verbatim>\<open>None\<close>, its points and \<^verbatim>\<open>bbox\<close> are sequences that the
  source indexes.
\<close>

record face =
  embedding :: "real list"
  kps :: "real list list option"
  bbox :: "real list"

text \<open>
  The mutable fields of \<^verbatim>\<open>ProctoringSession\<close>. The last two fields are the state of the
  collaborator objects \<^verbatim>\<open>self.face_app\<close> and \<^verbatim>\<open>self.phone_detector\<close> that matters here:
  how often \<^verbatim>\<open>get\<close> and \<^verbatim>\<open>detect\<close> have been invoked.
\<close>

record session =
  ref_embedding :: "real list option"
  last_face_check_time :: real
  last_faces :: "face list"
  last_authorized :: bool
  last_phone_check_time :: real
  last_phone_present :: bool
  phone_presence_start_time :: "real option"
  distracted_start_time :: "real option"
  face_app_calls :: nat
  phone_detector_calls :: nat

text \<open>The state that \<^verbatim>\<open>__init__\<close> builds.\<close>

definition init_session :: session where
  "init_session =
     \<lparr> ref_embedding = None,
       last_face_check_time = 0,
       last_faces = [],
       last_authorized = False,
       last_phone_check_time = 0,
       last_phone_present = False,
       phone_presence_start_time = None,
       distracted_start_time = None,
       face_app_calls = 0,
       phone_detector_calls = 0 \<rparr>"

text \<open>
  What the outside world answers during one call: the result of \<^verbatim>\<open>cv2.imdecode\<close>
  (an exception, \<^verbatim>\<open>None\<close> or an image), of \<^verbatim>\<open>face_app.get\<close>, of
  \<^verbatim>\<open>phone_detector.detect\<close> (the first component of its pair) and of \<^verbatim>\<open>time.time()\<close>.
\<close>

record env =
  imdecode :: "bytes \<Rightarrow> exn + image option"
  face_get :: "image \<Rightarrow> exn + face list"
  phone_detect :: "image \<Rightarrow> exn + bool"
  time_now :: real

text \<open>Events are Python dicts: key/value pairs in insertion order.\<close>

datatype pyval = PStr string | PFloat real | PInt int

type_synonym event = "(string \<times> pyval) list"

definition ev_face_not_found :: "real \<Rightarrow> event" where
  "ev_face_not_found now =
     [(''event'', PStr ''FACE_NOT_FOUND''), (''timestamp'', PFloat now)]"

definition ev_multiple_faces :: "nat \<Rightarrow> real \<Rightarrow> event" where
  "ev_multiple_faces n now =
     [(''event'', PStr ''MULTIPLE_FACES''), (''count'', PInt (int n)),
      (''timestamp'', PFloat now)]"

definition ev_unauthorized_person :: "real \<Rightarrow> real \<Rightarrow> event" where
  "ev_unauthorized_person sim now =
     [(''event'', PStr ''UNAUTHORIZED_PERSON''), (''similarity'', PFloat sim),
      (''timestamp'', PFloat now)]"

definition ev_phone_detected :: "real \<Rightarrow> event" where
  "ev_phone_detected now =
     [(''event'', PStr ''PHONE_DETECTED''), (''timestamp'', PFloat now)]"

definition ev_looking_away :: "int \<Rightarrow> real \<Rightarrow> event" where
  "ev_looking_away score now =
     [(''event'', PStr ''LOOKING_AWAY''), (''score'', PInt score),
      (''timestamp'', PFloat now)]"

definition ev_error :: "string \<Rightarrow> event" where
  "ev_error msg = [(''event'', PStr ''ERROR''), (''message'', PStr msg)]"

text \<open>The value a dict holds under the key \<^verbatim>\<open>"event"\<close>.\<close>

definition kind :: "event \<Rightarrow> pyval option" where
  "kind ev = map_of ev ''event''"

text \<open>Whether a list of events holds one of the given kind.\<close>

definition emitted :: "string \<Rightarrow> event list \<Rightarrow> bool" where
  "emitted k evs = (Some (PStr k) \<in> set (map kind evs))"

subsection \<open>Frame decoding\<close>

text \<open>\<^verbatim>\<open>_decode_frame\<close>: every exception of the decoder becomes \<^verbatim>\<open>None\<close>.\<close>

definition decode_frame :: "env \<Rightarrow> bytes \<Rightarrow> image option" where
  "decode_frame e frame_bytes =
     (case imdecode e frame_bytes of
        Inl _ \<Rightarrow> None
      | Inr frame \<Rightarrow> frame)"

subsection \<open>Identity check\<close>

text \<open>
  The quotient of line 109. \<^verbatim>\<open>np.dot\<close> raises on \<^verbatim>\<open>None\<close> and on vectors of
  different lengths. Where the product of the norms is zero, numpy's scalar division
  does not raise: the quotient is not a number (one of the vectors is all zeros, so
  the dot product is zero as well).
\<close>

datatype simval = Sim real | SimNaN

definition np_dot :: "real list \<Rightarrow> real list \<Rightarrow> exn + real" where
  "np_dot a b =
     (if length a \<noteq> length b then Inl ValueError
      else Inr (sum_list (map (\<lambda>(x, y). x * y) (zip a b))))"

definition np_norm :: "real list \<Rightarrow> real" where
  "np_norm a = sqrt (sum_list (map (\<lambda>x. x * x) a))"

definition cosine_sim :: "real list option \<Rightarrow> real list \<Rightarrow> exn + simval" where
  "cosine_sim r emb =
     (case r of
        None \<Rightarrow> Inl TypeError
      | Some a \<Rightarrow>
          (case np_dot a emb of
             Inl x \<Rightarrow> Inl x
           | Inr d \<Rightarrow>
               (let n = np_norm a * np_norm emb
                in if n = 0 then Inr SimNaN else Inr (Sim (d / n)))))"

text \<open>\<^verbatim>\<open>sim <= AUTHORIZED_THRESHOLD\<close>: every comparison with not-a-number is false.\<close>

fun sim_le :: "simval \<Rightarrow> real \<Rightarrow> bool" where
  "sim_le (Sim x) t = (x \<le> t)"
| "sim_le SimNaN t = False"

text \<open>
  \<^verbatim>\<open>float(sim)\<close>, which the source evaluates only where the comparison held, so never
  on not-a-number.
\<close>

fun sim_float :: "simval \<Rightarrow> real" where
  "sim_float (Sim x) = x"
| "sim_float SimNaN = 0"

subsection \<open>Head pose score\<close>

text \<open>Indexing a sequence; \<^verbatim>\<open>None\<close> stands for the IndexError.\<close>

definition nth_opt :: "'a list \<Rightarrow> nat \<Rightarrow> 'a option" where
  "nth_opt xs i = (if i < length xs then Some (xs ! i) else None)"

text \<open>Lines 194 to 205, from the two normalised offsets.\<close>

definition head_score_of_offsets :: "real \<Rightarrow> real \<Rightarrow> real" where
  "head_score_of_offsets nose_center_offset vert_offset =
     (let HORIZ_THRESHOLD = 35 / 100; VERT_THRESHOLD = 25 / 100;
          SEVERE_HORIZ = 5 / 10; SEVERE_VERT = 4 / 10;
          horiz_score = max 0 (1 - \<bar>nose_center_offset\<bar> / HORIZ_THRESHOLD);
          vert_score = max 0 (1 - \<bar>vert_offset\<bar> / VERT_THRESHOLD);
          head_score = (horiz_score + vert_score) / 2;
          head_score =
            (if \<bar>nose_center_offset\<bar> > SEVERE_HORIZ \<or> \<bar>vert_offset\<bar> > SEVERE_VERT
             then head_score * (3 / 10) else head_score);
          head_score =
            (if \<bar>nose_center_offset\<bar> < HORIZ_THRESHOLD / 2 \<and> \<bar>vert_offset\<bar> < VERT_THRESHOLD / 2
             then min 1 (head_score * (12 / 10)) else head_score)
      in head_score)"

text \<open>The body of the try block of \<^verbatim>\<open>_compute_head_score\<close>; \<^verbatim>\<open>None\<close> is an exception.\<close>

definition head_score_try :: "real list list \<Rightarrow> real list \<Rightarrow> real option" where
  "head_score_try ks bb =
     do {
       left_eye \<leftarrow> nth_opt ks 0;
       right_eye \<leftarrow> nth_opt ks 1;
       nose \<leftarrow> nth_opt ks 2;
       right_x \<leftarrow> nth_opt right_eye 0;
       left_x \<leftarrow> nth_opt left_eye 0;
       let eye_distance = max (right_x - left_x) (1 / 1000000);
       nose_x \<leftarrow> nth_opt nose 0;
       let nose_center_offset = (nose_x - (left_x + right_x) / 2) / eye_distance;
       bottom \<leftarrow> nth_opt bb 3;
       top \<leftarrow> nth_opt bb 1;
       let face_height = max (bottom - top) (1 / 1000000);
       left_y \<leftarrow> nth_opt left_eye 1;
       right_y \<leftarrow> nth_opt right_eye 1;
       let eye_y_avg = (left_y + right_y) / 2;
       nose_y \<leftarrow> nth_opt nose 1;
       let vert_offset = (nose_y - eye_y_avg) / face_height;
       Some (head_score_of_offsets nose_center_offset vert_offset)
     }"

definition compute_head_score :: "face \<Rightarrow> real" where
  "compute_head_score f =
     (case kps f of
        None \<Rightarrow> 0
      | Some ks \<Rightarrow>
          if length ks < 3 then 0
          else (case head_score_try ks (bbox f) of
                  None \<Rightarrow> 0
                | Some h \<Rightarrow> h))"

subsection \<open>Attention score\<close>

text \<open>Lines 141 to 152, from the four values that the source reads.\<close>

definition attention_formula :: "bool \<Rightarrow> bool \<Rightarrow> real \<Rightarrow> bool \<Rightarrow> real" where
  "attention_formula face_present authorized head_score phone_present =
     (let face_score = (if face_present \<and> authorized then 1 else 0);
          phone_pen = (if phone_present then 1 else 0)
      in if \<not> face_present \<or> \<not> authorized then 0
         else (let base_score =
                     (W_FACE * face_score + W_HEAD * head_score + W_PHONE * (1 - phone_pen))
                       / (W_FACE + W_HEAD + W_PHONE);
                   attention_score = base_score * 100
               in if head_score > 8 / 10 then min 100 (attention_score * (11 / 10))
                  else attention_score))"

definition attention_of :: "session \<Rightarrow> real" where
  "attention_of s =
     (let person_count = length (last_faces s);
          face_present = (person_count = 1);
          authorized = last_authorized s;
          phone_present = last_phone_present s;
          head_score =
            (if face_present \<and> authorized then compute_head_score (last_faces s ! 0) else 0)
      in attention_formula face_present authorized head_score phone_present)"

text \<open>Python's \<^verbatim>\<open>int\<close> of a float truncates towards zero.\<close>

definition py_int :: "real \<Rightarrow> int" where
  "py_int x = (if 0 \<le> x then \<lfloor>x\<rfloor> else \<lceil>x\<rceil>)"

subsection \<open>The steps of process\_frame\<close>

text \<open>
  A step that can raise returns the exception or its result, and always the session as
  the step left it: assignments made before the exception stay.
\<close>

text \<open>Lines 95 to 116: the periodic face check and the identity decision.\<close>

definition face_check :: "env \<Rightarrow> image \<Rightarrow> real \<Rightarrow> session \<Rightarrow> (exn + event list) \<times> session" where
  "face_check e frame now s =
     (if now - last_face_check_time s \<ge> FACE_CHECK_INTERVAL then
        (let s1 = s\<lparr>last_face_check_time := now, face_app_calls := face_app_calls s + 1\<rparr>
         in case face_get e frame of
              Inl x \<Rightarrow> (Inl x, s1)
            | Inr faces \<Rightarrow>
                (let s2 = s1\<lparr>last_faces := faces\<rparr>
                 in if faces = [] then
                      (Inr [ev_face_not_found now], s2\<lparr>last_authorized := False\<rparr>)
                    else if length faces > 1 then
                      (Inr [ev_multiple_faces (length faces) now], s2\<lparr>last_authorized := False\<rparr>)
                    else
                      (case cosine_sim (ref_embedding s2) (embedding (faces ! 0)) of
                         Inl x \<Rightarrow> (Inl x, s2)
                       | Inr sim \<Rightarrow>
                           if sim_le sim AUTHORIZED_THRESHOLD then
                             (Inr [ev_unauthorized_person (sim_float sim) now],
                              s2\<lparr>last_authorized := False\<rparr>)
                           else (Inr [], s2\<lparr>last_authorized := True\<rparr>))))
      else (Inr [], s))"

text \<open>Lines 124 to 127: the periodic phone check.\<close>

definition phone_check :: "env \<Rightarrow> image \<Rightarrow> real \<Rightarrow> session \<Rightarrow> (exn + unit) \<times> session" where
  "phone_check e frame now s =
     (if now - last_phone_check_time s \<ge> PHONE_CHECK_INTERVAL then
        (let s1 = s\<lparr>last_phone_check_time := now,
                     phone_detector_calls := phone_detector_calls s + 1\<rparr>
         in case phone_detect e frame of
              Inl x \<Rightarrow> (Inl x, s1)
            | Inr phone_present \<Rightarrow> (Inr (), s1\<lparr>last_phone_present := phone_present\<rparr>))
      else (Inr (), s))"

text \<open>Lines 130 to 138: the phone timer.\<close>

definition phone_alert :: "real \<Rightarrow> session \<Rightarrow> event list \<times> session" where
  "phone_alert now s =
     (if last_phone_present s then
        (case phone_presence_start_time s of
           None \<Rightarrow> ([], s\<lparr>phone_presence_start_time := Some now\<rparr>)
         | Some t \<Rightarrow>
             if now - t \<ge> PHONE_ALERT_SECONDS then ([ev_phone_detected now], s)
             else ([], s))
      else ([], s\<lparr>phone_presence_start_time := None\<rparr>))"

text \<open>Lines 155 to 161: the distraction timer.\<close>

definition distraction_alert :: "real \<Rightarrow> real \<Rightarrow> session \<Rightarrow> event list \<times> session" where
  "distraction_alert now attention_score s =
     (if attention_score < FOCUS_THRESHOLD \<and> last_authorized s then
        (case distracted_start_time s of
           None \<Rightarrow> ([], s\<lparr>distracted_start_time := Some now\<rparr>)
         | Some t \<Rightarrow>
             if now - t \<ge> FOCUS_ALERT_TIME then
               ([ev_looking_away (py_int attention_score) now], s)
             else ([], s))
      else ([], s\<lparr>distracted_start_time := None\<rparr>))"

subsection \<open>process\_frame\<close>

text \<open>
  The try block of \<^verbatim>\<open>process_frame\<close>: the list it returns, or the exception that
  leaves it.
\<close>

definition process_frame_body :: "env \<Rightarrow> bytes \<Rightarrow> session \<Rightarrow> (exn + event list) \<times> session" where
  "process_frame_body e frame_bytes s =
     (case decode_frame e frame_bytes of
        None \<Rightarrow> (Inr [ev_error ''Invalid frame data.''], s)
      | Some frame \<Rightarrow>
          (let now = time_now e
           in case face_check e frame now s of
                (Inl x, s1) \<Rightarrow> (Inl x, s1)
              | (Inr events1, s1) \<Rightarrow>
                  (case phone_check e frame now s1 of
                     (Inl x, s2) \<Rightarrow> (Inl x, s2)
                   | (Inr _, s2) \<Rightarrow>
                       (let (events2, s3) = phone_alert now s2;
                            attention_score = attention_of s3;
                            (events3, s4) = distraction_alert now attention_score s3
                        in (Inr (events1 @ events2 @ events3), s4)))))"

text \<open>The except clause turns every exception into one ERROR event.\<close>

definition process_frame :: "env \<Rightarrow> bytes \<Rightarrow> session \<Rightarrow> event list \<times> session" where
  "process_frame e frame_bytes s =
     (case process_frame_body e frame_bytes s of
        (Inl _, s') \<Rightarrow> ([ev_error ''An internal error occurred.''], s')
      | (Inr events, s') \<Rightarrow> (events, s'))"

text \<open>
  The two ways in which a call ends with an ERROR event only. The phone model raises
  during a call when its interval has elapsed and \<^verbatim>\<open>detect\<close> raises; the face check
  leaves \<open>last_phone_check_time\<close> alone, so this is read off the session before the
  call. A frame fails when it cannot be decoded or the try block is left by an
  exception.
\<close>

definition phone_raises :: "env \<Rightarrow> image \<Rightarrow> session \<Rightarrow> bool" where
  "phone_raises e frame s =
     (time_now e - last_phone_check_time s \<ge> PHONE_CHECK_INTERVAL \<and> isl (phone_detect e frame))"

definition frame_fails :: "env \<Rightarrow> bytes \<Rightarrow> session \<Rightarrow> bool" where
  "frame_fails e frame_bytes s =
     (decode_frame e frame_bytes = None \<or> isl (fst (process_frame_body e frame_bytes s)))"

subsection \<open>register\_user\_from\_frame\<close>

definition register_user_from_frame :: "env \<Rightarrow> bytes \<Rightarrow> session \<Rightarrow> (bool \<times> string) \<times> session" where
  "register_user_from_frame e frame_bytes s =
     (if ref_embedding s \<noteq> None then ((False, ''User is already registered.''), s)
      else
        (case decode_frame e frame_bytes of
           None \<Rightarrow> ((False, ''Invalid image data.''), s)
         | Some frame \<Rightarrow>
             (let s1 = s\<lparr>face_app_calls := face_app_calls s + 1\<rparr>
              in case face_get e frame of
                   Inl _ \<Rightarrow> ((False, ''An internal error occurred.''), s1)
                 | Inr faces \<Rightarrow>
                     if faces = [] then ((False, ''No face found in registration frame.''), s1)
                     else if length faces > 1 then
                       ((False, ''Multiple faces found. Only one person allowed.''), s1)
                     else
                       (let now = time_now e
                        in ((True, ''User registered successfully.''),
                            s1\<lparr>ref_embedding := Some (embedding (faces ! 0)),
                               last_faces := faces,
                               last_authorized := True,
                               last_face_check_time := now,
                               last_phone_check_time := now\<rparr>)))))"

subsection \<open>A session's lifetime\<close>

text \<open>
  The calls a session receives, one after the other, each with what the outside world
  answers during it.
\<close>

datatype request = Register bytes | ProcessFrame bytes

fun handle :: "env \<times> request \<Rightarrow> session \<Rightarrow> session" where
  "handle (e, Register b) s = snd (register_user_from_frame e b s)"
| "handle (e, ProcessFrame b) s = snd (process_frame e b s)"

fun run :: "(env \<times> request) list \<Rightarrow> session \<Rightarrow> session" where
  "run [] s = s"
| "run (c # cs) s = run cs (handle c s)"

subsection \<open>Concrete inputs\<close>

text \<open>
  A face looking straight ahead (nose between the eyes, on the eye line) with a given
  embedding, and one without keypoints; an outside world whose decoder rejects the
  empty buffer only and whose models give fixed answers; a session registered at time 0
  with the embedding \<open>[1, 0, 0, 0, 0]\<close>.
\<close>

definition ex_face :: "real list \<Rightarrow> face" where
  "ex_face emb = \<lparr>embedding = emb, kps = Some [[0, 0], [2, 0], [1, 0]], bbox = [0, - 1, 2, 1]\<rparr>"

definition ex_away_face :: "real list \<Rightarrow> face" where
  "ex_away_face emb = \<lparr>embedding = emb, kps = None, bbox = []\<rparr>"

definition ex_env :: "real \<Rightarrow> exn + face list \<Rightarrow> exn + bool \<Rightarrow> env" where
  "ex_env now face_result phone_result =
     \<lparr>imdecode = (\<lambda>b. if b = [] then Inr None else Inr (Some (Image b))),
      face_get = (\<lambda>_. face_result),
      phone_detect = (\<lambda>_. phone_result),
      time_now = now\<rparr>"

definition ex_session :: session where
  "ex_session =
     snd (register_user_from_frame (ex_env 0 (Inr [ex_face [1, 0, 0, 0, 0]]) (Inr False)) [1]
            init_session)"

text \<open>The registered session after a frame at time 3 on which the phone model sees a phone.\<close>

definition ex_phone_armed :: session where
  "ex_phone_armed = snd (process_frame (ex_env 3 (Inl ModelError) (Inr True)) [1] ex_session)"

text \<open>
  The registered session after a frame at time 5 on which the face model finds the
  registered person without keypoints (head score 0, attention 50).
\<close>

definition ex_distracted :: session where
  "ex_distracted =
     snd (process_frame (ex_env 5 (Inr [ex_away_face [1, 0, 0, 0, 0]]) (Inr False)) [1] ex_session)"

section \<open>Facts about the steps\<close>

lemmas config_defs =
  AUTHORIZED_THRESHOLD_def FOCUS_ALERT_TIME_def PHONE_ALERT_SECONDS_def
  FOCUS_THRESHOLD_def FACE_CHECK_INTERVAL_def PHONE_CHECK_INTERVAL_def
  W_FACE_def W_HEAD_def W_PHONE_def

lemmas ev_defs =
  ev_face_not_found_def ev_multiple_faces_def ev_unauthorized_person_def
  ev_phone_detected_def ev_looking_away_def ev_error_def

lemmas step_defs =
  process_frame_def process_frame_body_def decode_frame_def face_check_def phone_check_def
  phone_alert_def distraction_alert_def attention_of_def attention_formula_def

text \<open>What each step can emit.\<close>

lemma kind_simps [simp]:
  "kind (ev_face_not_found now) = Some (PStr ''FACE_NOT_FOUND'')"
  "kind (ev_multiple_faces n now) = Some (PStr ''MULTIPLE_FACES'')"
  "kind (ev_unauthorized_person x now) = Some (PStr ''UNAUTHORIZED_PERSON'')"
  "kind (ev_phone_detected now) = Some (PStr ''PHONE_DETECTED'')"
  "kind (ev_looking_away k now) = Some (PStr ''LOOKING_AWAY'')"
  "kind (ev_error msg) = Some (PStr ''ERROR'')"
  by (simp_all add: kind_def ev_defs)

lemma emitted_simps [simp]:
  "emitted k [] = False"
  "emitted k (ev # evs) = (kind ev = Some (PStr k) \<or> emitted k evs)"
  "emitted k (evs @ evs') = (emitted k evs \<or> emitted k evs')"
  by (auto simp: emitted_def)

lemma face_check_events:
  "face_check e frame now s = (Inr evs, s') \<Longrightarrow>
     evs = [] \<or> evs = [ev_face_not_found now]
     \<or> (\<exists>n. evs = [ev_multiple_faces n now]) \<or> (\<exists>x. evs = [ev_unauthorized_person x now])"
  by (auto simp: face_check_def Let_def split: if_splits sum.splits)

lemma phone_alert_events:
  "phone_alert now s = (evs, s') \<Longrightarrow> evs = [] \<or> evs = [ev_phone_detected now]"
  by (auto simp: phone_alert_def split: if_splits option.splits)

lemma distraction_alert_events:
  "distraction_alert now a s = (evs, s') \<Longrightarrow> evs = [] \<or> evs = [ev_looking_away (py_int a) now]"
  by (auto simp: distraction_alert_def split: if_splits option.splits)

lemma face_check_no_alert:
  "face_check e frame now s = (Inr evs, s') \<Longrightarrow>
     \<not> emitted ''PHONE_DETECTED'' evs \<and> \<not> emitted ''LOOKING_AWAY'' evs"
  by (drule face_check_events) auto

text \<open>What each step leaves alone.\<close>

lemma face_check_keeps:
  assumes "face_check e frame now s = (r, s')"
  shows "ref_embedding s' = ref_embedding s"
    "last_phone_check_time s' = last_phone_check_time s"
    "last_phone_present s' = last_phone_present s"
    "phone_presence_start_time s' = phone_presence_start_time s"
    "distracted_start_time s' = distracted_start_time s"
    "phone_detector_calls s' = phone_detector_calls s"
  using assms by (auto simp: face_check_def Let_def split: if_splits sum.splits)

lemma phone_check_keeps:
  assumes "phone_check e frame now s = (r, s')"
  shows "ref_embedding s' = ref_embedding s" "last_face_check_time s' = last_face_check_time s"
    "last_faces s' = last_faces s" "last_authorized s' = last_authorized s"
    "phone_presence_start_time s' = phone_presence_start_time s"
    "distracted_start_time s' = distracted_start_time s"
    "face_app_calls s' = face_app_calls s"
  using assms by (auto simp: phone_check_def Let_def split: if_splits sum.splits)

lemma phone_alert_keeps:
  assumes "phone_alert now s = (evs, s')"
  shows "ref_embedding s' = ref_embedding s" "last_face_check_time s' = last_face_check_time s"
    "last_faces s' = last_faces s" "last_authorized s' = last_authorized s"
    "last_phone_check_time s' = last_phone_check_time s"
    "last_phone_present s' = last_phone_present s"
    "distracted_start_time s' = distracted_start_time s"
    "face_app_calls s' = face_app_calls s" "phone_detector_calls s' = phone_detector_calls s"
  using assms by (auto simp: phone_alert_def split: if_splits option.splits)

lemma distraction_alert_keeps:
  assumes "distraction_alert now a s = (evs, s')"
  shows "ref_embedding s' = ref_embedding s" "last_face_check_time s' = last_face_check_time s"
    "last_faces s' = last_faces s" "last_authorized s' = last_authorized s"
    "last_phone_check_time s' = last_phone_check_time s"
    "last_phone_present s' = last_phone_present s"
    "phone_presence_start_time s' = phone_presence_start_time s"
    "face_app_calls s' = face_app_calls s" "phone_detector_calls s' = phone_detector_calls s"
  using assms by (auto simp: distraction_alert_def split: if_splits option.splits)

lemma attention_of_cong:
  "last_faces s' = last_faces s \<Longrightarrow> last_authorized s' = last_authorized s \<Longrightarrow>
   last_phone_present s' = last_phone_present s \<Longrightarrow> attention_of s' = attention_of s"
  by (simp add: attention_of_def Let_def)



lemma face_check_raised:
  "face_check e frame now s = (Inl x, s') \<Longrightarrow>
     last_face_check_time s' = now \<and> last_face_check_time s \<noteq> now
     \<and> last_authorized s' = last_authorized s"
  by (auto simp: face_check_def Let_def config_defs split: if_splits sum.splits)

lemma phone_check_raised:
  "phone_check e frame now s = (Inl x, s') \<Longrightarrow>
     last_phone_check_time s' = now \<and> last_phone_check_time s \<noteq> now
     \<and> last_phone_present s' = last_phone_present s"
  by (auto simp: phone_check_def Let_def config_defs split: if_splits sum.splits)

text \<open>The call in the steps it is made of, once the frame has been decoded.\<close>

lemma process_frame_body_undecoded:
  "decode_frame e b = None \<Longrightarrow>
     process_frame_body e b s = (Inr [ev_error ''Invalid frame data.''], s)"
  by (simp add: process_frame_body_def)

lemma process_frame_body_raised_decoded:
  "process_frame_body e b s = (Inl x, s') \<Longrightarrow> \<exists>frame. decode_frame e b = Some frame"
  by (cases "decode_frame e b") (simp_all add: process_frame_body_def)

lemma process_frame_body_steps:
  assumes "decode_frame e b = Some frame"
    and "process_frame_body e b s = (r, s')"
  obtains (face_raised) x where "face_check e frame (time_now e) s = (Inl x, s')" "r = Inl x"
  | (phone_raised) x ev1 s1 where "face_check e frame (time_now e) s = (Inr ev1, s1)"
      "phone_check e frame (time_now e) s1 = (Inl x, s')" "r = Inl x"
  | (returned) ev1 s1 u s2 ev2 s3 ev3 where "face_check e frame (time_now e) s = (Inr ev1, s1)"
      "phone_check e frame (time_now e) s1 = (Inr u, s2)"
      "phone_alert (time_now e) s2 = (ev2, s3)"
      "distraction_alert (time_now e) (attention_of s3) s3 = (ev3, s')"
      "r = Inr (ev1 @ ev2 @ ev3)"
  using assms
  by (auto simp: process_frame_body_def Let_def split: prod.splits sum.splits)

lemma process_frame_events:
  assumes "ev \<in> set (fst (process_frame e b s))"
  shows "ev = ev_error ''Invalid frame data.'' \<or> ev = ev_error ''An internal error occurred.''
       \<or> ev = ev_face_not_found (time_now e)
       \<or> (\<exists>n. ev = ev_multiple_faces n (time_now e))
       \<or> (\<exists>x. ev = ev_unauthorized_person x (time_now e))
       \<or> ev = ev_phone_detected (time_now e)
       \<or> (\<exists>k. ev = ev_looking_away k (time_now e))"
proof (cases "decode_frame e b")
  case None
  with assms show ?thesis by (simp add: process_frame_def process_frame_body_undecoded)
next
  case (Some frame)
  obtain r s' where body: "process_frame_body e b s = (r, s')"
    by (cases "process_frame_body e b s")
  from Some body show ?thesis
  proof (cases rule: process_frame_body_steps)
    case (face_raised x)
    with body assms show ?thesis by (simp add: process_frame_def)
  next
    case (phone_raised x ev1 s1)
    with body assms show ?thesis by (simp add: process_frame_def)
  next
    case (returned ev1 s1 u s2 ev2 s3 ev3)
    with body assms have "ev \<in> set ev1 \<or> ev \<in> set ev2 \<or> ev \<in> set ev3"
      by (auto simp: process_frame_def)
    then show ?thesis
      using face_check_events [OF returned(1)] phone_alert_events [OF returned(3)]
        distraction_alert_events [OF returned(4)]
      by auto
  qed
qed

lemma process_frame_ref_embedding:
  "ref_embedding (snd (process_frame e b s)) = ref_embedding s"
proof (cases "decode_frame e b")
  case None
  then show ?thesis by (simp add: process_frame_def process_frame_body_undecoded)
next
  case (Some frame)
  obtain r s' where body: "process_frame_body e b s = (r, s')"
    by (cases "process_frame_body e b s")
  from Some body have "ref_embedding s' = ref_embedding s"
    by (cases rule: process_frame_body_steps)
      (simp_all add: face_check_keeps phone_check_keeps phone_alert_keeps distraction_alert_keeps)
  with body show ?thesis by (simp add: process_frame_def split: sum.splits)
qed

text \<open>How a call ends once the face check has returned, and how a failed frame ends.\<close>

lemma phone_check_result:
  assumes "last_phone_check_time s1 = last_phone_check_time s"
  shows "if phone_raises e frame s
         then \<exists>x s2. phone_check e frame (time_now e) s1 = (Inl x, s2)
         else \<exists>s2. phone_check e frame (time_now e) s1 = (Inr (), s2)"
  using assms
  by (auto simp: phone_raises_def phone_check_def Let_def isl_def split: sum.splits)

lemma process_frame_after_face_check:
  assumes "decode_frame e b = Some frame"
    and "face_check e frame (time_now e) s = (Inr ev1, s1)"
    and "process_frame e b s = (evs, s')"
  shows "last_faces s' = last_faces s1 \<and> last_authorized s' = last_authorized s1
       \<and> (if phone_raises e frame s then evs = [ev_error ''An internal error occurred.'']
          else \<exists>ev2 ev3. evs = ev1 @ ev2 @ ev3
                 \<and> (ev2 = [] \<or> ev2 = [ev_phone_detected (time_now e)])
                 \<and> (ev3 = [] \<or> (\<exists>k. ev3 = [ev_looking_away k (time_now e)])))"
proof -
  obtain r s0 where body: "process_frame_body e b s = (r, s0)"
    by (cases "process_frame_body e b s")
  with assms(3) have s0: "s0 = s'" by (auto simp: process_frame_def split: sum.splits)
  have lp: "last_phone_check_time s1 = last_phone_check_time s"
    using assms(2) by (simp add: face_check_keeps)
  from assms(1) body show ?thesis
  proof (cases rule: process_frame_body_steps)
    case (face_raised x)
    with assms(2) show ?thesis by simp
  next
    case (phone_raised x ev1' s1')
    with assms(2) have eq: "s1' = s1" by simp
    from phone_raised(2) eq have pr: "phone_raises e frame s"
      using phone_check_result [OF lp, of e frame] by (auto split: if_splits)
    from phone_raised(2) eq s0 have "last_faces s' = last_faces s1" "last_authorized s' = last_authorized s1"
      by (simp_all add: phone_check_keeps)
    moreover from phone_raised(3) body assms(3) have "evs = [ev_error ''An internal error occurred.'']"
      by (simp add: process_frame_def)
    ultimately show ?thesis using pr by simp
  next
    case (returned ev1' s1' u s2 ev2 s3 ev3)
    with assms(2) have eq: "s1' = s1" "ev1' = ev1" by simp_all
    from returned(2) eq have pr: "\<not> phone_raises e frame s"
      using phone_check_result [OF lp, of e frame] by (auto split: if_splits)
    have "last_faces s' = last_faces s1" "last_authorized s' = last_authorized s1"
      using returned(2-4) eq(1) s0
      by (simp_all add: phone_check_keeps phone_alert_keeps distraction_alert_keeps)
    moreover have "evs = ev1 @ ev2 @ ev3"
      using returned(5) body assms(3) eq(2) by (simp add: process_frame_def)
    moreover have "ev2 = [] \<or> ev2 = [ev_phone_detected (time_now e)]"
      using returned(3) by (rule phone_alert_events)
    moreover have "ev3 = [] \<or> (\<exists>k. ev3 = [ev_looking_away k (time_now e)])"
      using distraction_alert_events [OF returned(4)] by auto
    ultimately show ?thesis using pr by auto
  qed
qed

lemma process_frame_failed:
  assumes "frame_fails e b s" and "process_frame e b s = (evs, s')"
  shows "(evs = [ev_error ''Invalid frame data.''] \<or> evs = [ev_error ''An internal error occurred.''])
       \<and> phone_presence_start_time s' = phone_presence_start_time s
       \<and> distracted_start_time s' = distracted_start_time s"
proof (cases "decode_frame e b")
  case None
  with assms(2) show ?thesis by (simp add: process_frame_def process_frame_body_undecoded)
next
  case (Some frame)
  with assms(1) obtain x s0 where body: "process_frame_body e b s = (Inl x, s0)"
    by (cases "process_frame_body e b s") (auto simp: frame_fails_def isl_def)
  with assms(2) have "evs = [ev_error ''An internal error occurred.'']" "s0 = s'"
    by (simp_all add: process_frame_def)
  moreover from Some body
  have "phone_presence_start_time s0 = phone_presence_start_time s
        \<and> distracted_start_time s0 = distracted_start_time s"
    by (cases rule: process_frame_body_steps)
      (simp_all add: face_check_keeps phone_check_keeps)
  ultimately show ?thesis by simp
qed

lemma process_frame_completed:
  assumes "\<not> frame_fails e b s" and "process_frame e b s = (evs, s')"
  shows "\<exists>frame. decode_frame e b = Some frame \<and> process_frame_body e b s = (Inr evs, s')"
proof -
  from assms(1) obtain frame where "decode_frame e b = Some frame"
    by (auto simp: frame_fails_def)
  moreover from assms have "process_frame_body e b s = (Inr evs, s')"
    by (cases "process_frame_body e b s")
      (auto simp: frame_fails_def process_frame_def isl_def split: sum.splits)
  ultimately show ?thesis by blast
qed

subsection \<open>The concrete inputs evaluated\<close>

lemma sqrt_25: "sqrt 25 = 5"
  by (rule real_sqrt_unique) simp_all

lemma ex_session_eq: "ex_session = 
     \<lparr> ref_embedding = Some [1, 0, 0, 0, 0],
       last_face_check_time = 0,
       last_faces = [ex_face [1, 0, 0, 0, 0]],
       last_authorized = True,
       last_phone_check_time = 0,
       last_phone_present = False,
       phone_presence_start_time = None,
       distracted_start_time = None,
       face_app_calls = 1,
       phone_detector_calls = 0 \<rparr>"
  by (simp add: ex_session_def register_user_from_frame_def init_session_def ex_env_def decode_frame_def ex_face_def)

lemmas ex_defs = ex_env_def ex_face_def ex_session_eq

lemma ex_cos: "cosine_sim (Some [1, 0, 0, 0, 0]) [2, 4, 2, 1, 0] = Inr (Sim (2 / 5))"
  by (simp add: cosine_sim_def np_dot_def np_norm_def sqrt_25)

lemma cos_zero: "cosine_sim (Some [1, 0, 0, 0, 0]) [0, 0, 0, 0, 0] = Inr SimNaN"
  by (simp add: cosine_sim_def np_dot_def np_norm_def)

lemma ex_head: "compute_head_score (ex_face emb) = 1"
  by (simp add: compute_head_score_def ex_face_def head_score_try_def nth_opt_def head_score_of_offsets_def Let_def)

lemmas eval_defs = step_defs ex_defs config_defs ex_away_face_def
  compute_head_score_def head_score_try_def nth_opt_def head_score_of_offsets_def
  cosine_sim_def np_dot_def np_norm_def py_int_def

lemma ex_phone_armed_eq:
  "ex_phone_armed = ex_session\<lparr>last_phone_check_time := 3, last_phone_present := True,
      phone_presence_start_time := Some 3, phone_detector_calls := 1\<rparr>"
  by (simp add: ex_phone_armed_def eval_defs)

lemma ex_distracted_eq:
  "ex_distracted = ex_session\<lparr>last_face_check_time := 5,
      last_faces := [ex_away_face [1, 0, 0, 0, 0]], last_phone_check_time := 5,
      distracted_start_time := Some 5, face_app_calls := 2, phone_detector_calls := 1\<rparr>"
  by (simp add: ex_distracted_def eval_defs)

section \<open>The identity decision\<close>

text \<open>
  C1, as amended. On a frame on which the face check runs and finds one face, with the
  similarity to the reference embedding computed: \<open>last_authorized\<close> becomes false
  exactly when the comparison \<open>sim <= AUTHORIZED_THRESHOLD\<close> holds. For a similarity
  that is a number the person is therefore authorized exactly when it is strictly
  greater than the threshold, and unauthorized at the boundary; a similarity that is
  not a number (a zero-norm embedding) compares false, and the person is authorized.
  When the person is unauthorized the call returns an UNAUTHORIZED\_PERSON event with
  the similarity and the time of the frame, and no such event otherwise, unless the
  phone model raises later in the same call: then the call returns the ERROR event
  only, and \<open>last_authorized\<close> keeps the decision.
\<close>

theorem similarity_decision:
  assumes "decode_frame e b = Some frame"
    and "time_now e - last_face_check_time s \<ge> FACE_CHECK_INTERVAL"
    and "face_get e frame = Inr [f]"
    and "cosine_sim (ref_embedding s) (embedding f) = Inr sim"
    and "process_frame e b s = (evs, s')"
  shows "last_authorized s' = (\<not> sim_le sim AUTHORIZED_THRESHOLD)
       \<and> (\<forall>sv. sim = Sim sv \<longrightarrow> last_authorized s' = (sv > AUTHORIZED_THRESHOLD))
       \<and> (sim = Sim AUTHORIZED_THRESHOLD \<longrightarrow> \<not> last_authorized s')
       \<and> (if phone_raises e frame s then evs = [ev_error ''An internal error occurred.'']
          else if sim_le sim AUTHORIZED_THRESHOLD
          then ev_unauthorized_person (sim_float sim) (time_now e) \<in> set evs
          else \<not> emitted ''UNAUTHORIZED_PERSON'' evs)"
proof -
  let ?now = "time_now e"
  let ?ev1 = "if sim_le sim AUTHORIZED_THRESHOLD
              then [ev_unauthorized_person (sim_float sim) ?now] else []"
  have "\<exists>s1. face_check e frame ?now s = (Inr ?ev1, s1)
              \<and> last_authorized s1 = (\<not> sim_le sim AUTHORIZED_THRESHOLD)"
    using assms(2-4) by (simp add: face_check_def Let_def)
  then obtain s1 where s1: "face_check e frame ?now s = (Inr ?ev1, s1)"
    and a1: "last_authorized s1 = (\<not> sim_le sim AUTHORIZED_THRESHOLD)" by blast
  from process_frame_after_face_check [OF assms(1) s1 assms(5)] a1
  show ?thesis by (cases sim) (auto split: if_splits)
qed

text \<open>
  The claim as stated fails twice. With the similarity at the threshold and the phone
  model raising, the call returns the ERROR event without UNAUTHORIZED\_PERSON. With
  a zero embedding the similarity is not a number, so it is not greater than the
  threshold, and a session that was unauthorized becomes authorized.
\<close>

theorem similarity_decision_counterexample:
  "cosine_sim (ref_embedding ex_session) (embedding (ex_face [2, 4, 2, 1, 0])) = Inr (Sim (2 / 5))
   \<and> AUTHORIZED_THRESHOLD = 2 / 5
   \<and> process_frame (ex_env 10 (Inr [ex_face [2, 4, 2, 1, 0]]) (Inl ModelError)) [1] ex_session
       = ([ev_error ''An internal error occurred.''],
          ex_session\<lparr>last_face_check_time := 10, last_faces := [ex_face [2, 4, 2, 1, 0]],
                      last_authorized := False, last_phone_check_time := 10,
                      face_app_calls := 2, phone_detector_calls := 1\<rparr>)
   \<and> cosine_sim (ref_embedding ex_session) (embedding (ex_face [0, 0, 0, 0, 0])) = Inr SimNaN
   \<and> process_frame (ex_env 10 (Inr [ex_face [0, 0, 0, 0, 0]]) (Inr False)) [1]
         (ex_session\<lparr>last_authorized := False\<rparr>)
       = ([],
          ex_session\<lparr>last_face_check_time := 10, last_faces := [ex_face [0, 0, 0, 0, 0]],
                      last_authorized := True, last_phone_check_time := 10,
                      face_app_calls := 2, phone_detector_calls := 1\<rparr>)"
  by (simp add: ex_session_eq ex_cos cos_zero) (simp add: eval_defs sqrt_25)

theorem similarity_decision_witness:
  "\<not> phone_raises (ex_env 10 (Inr [ex_face [2, 4, 2, 1, 0]]) (Inr False)) (Image [1]) ex_session
   \<and> process_frame (ex_env 10 (Inr [ex_face [2, 4, 2, 1, 0]]) (Inr False)) [1] ex_session
       = ([ev_unauthorized_person (2 / 5) 10],
          ex_session\<lparr>last_face_check_time := 10, last_faces := [ex_face [2, 4, 2, 1, 0]],
                      last_authorized := False, last_phone_check_time := 10,
                      face_app_calls := 2, phone_detector_calls := 1\<rparr>)
   \<and> \<not> last_authorized
         (snd (process_frame (ex_env 10 (Inr [ex_face [2, 4, 2, 1, 0]]) (Inr False)) [1] ex_session))
   \<and> ev_unauthorized_person (2 / 5) 10
       \<in> set (fst (process_frame (ex_env 10 (Inr [ex_face [2, 4, 2, 1, 0]]) (Inr False)) [1] ex_session))"
proof -
  let ?e = "ex_env 10 (Inr [ex_face [2, 4, 2, 1, 0]]) (Inr False)"
  let ?s' = "ex_session\<lparr>last_face_check_time := 10, last_faces := [ex_face [2, 4, 2, 1, 0]],
                      last_authorized := False, last_phone_check_time := 10,
                      face_app_calls := 2, phone_detector_calls := 1\<rparr>"
  have h1: "decode_frame ?e [1] = Some (Image [1])"
    by (simp add: decode_frame_def ex_env_def)
  have h2: "time_now ?e - last_face_check_time ex_session \<ge> FACE_CHECK_INTERVAL"
    by (simp add: ex_defs config_defs)
  have h3: "face_get ?e (Image [1]) = Inr [ex_face [2, 4, 2, 1, 0]]"
    by (simp add: ex_env_def)
  have h4: "cosine_sim (ref_embedding ex_session) (embedding (ex_face [2, 4, 2, 1, 0])) = Inr (Sim (2 / 5))"
    by (simp add: ex_defs ex_cos)
  have h5: "process_frame ?e [1] ex_session = ([ev_unauthorized_person (2 / 5) 10], ?s')"
    by (simp add: step_defs ex_defs ex_cos config_defs)
  have h6: "\<not> phone_raises ?e (Image [1]) ex_session"
    by (simp add: phone_raises_def ex_env_def)
  from similarity_decision [OF h1 h2 h3 h4 h5] h5 h6
  show ?thesis by (simp add: config_defs)
qed

section \<open>Face count\<close>

text \<open>
  C6, as amended. On a frame on which the face check runs and the model yields zero
  faces or more than one: \<open>last_faces\<close> is replaced by the new list and
  \<open>last_authorized\<close> becomes false; the call returns a FACE\_NOT\_FOUND event (zero
  faces) or a MULTIPLE\_FACES event carrying the number of faces (more than one),
  unless the phone model raises later in the same call: then it returns the ERROR
  event only.
\<close>

theorem face_count_events:
  assumes "decode_frame e b = Some frame"
    and "time_now e - last_face_check_time s \<ge> FACE_CHECK_INTERVAL"
    and "face_get e frame = Inr faces"
    and "length faces \<noteq> 1"
    and "process_frame e b s = (evs, s')"
  shows "last_faces s' = faces \<and> \<not> last_authorized s'
       \<and> (if phone_raises e frame s then evs = [ev_error ''An internal error occurred.'']
          else if faces = [] then ev_face_not_found (time_now e) \<in> set evs
          else ev_multiple_faces (length faces) (time_now e) \<in> set evs)"
proof -
  let ?now = "time_now e"
  let ?ev1 = "if faces = [] then [ev_face_not_found ?now]
              else [ev_multiple_faces (length faces) ?now]"
  have "\<exists>s1. face_check e frame ?now s = (Inr ?ev1, s1)
              \<and> last_faces s1 = faces \<and> \<not> last_authorized s1"
    using assms(2-4) by (cases faces) (auto simp: face_check_def Let_def)
  then obtain s1 where s1: "face_check e frame ?now s = (Inr ?ev1, s1)"
    and a1: "last_faces s1 = faces" "\<not> last_authorized s1" by blast
  from process_frame_after_face_check [OF assms(1) s1 assms(5)] a1
  show ?thesis by (auto split: if_splits)
qed

text \<open>
  The claim as stated fails: with zero faces, or two, and the phone model raising, the
  call returns the ERROR event only, while \<open>last_faces\<close> and \<open>last_authorized\<close> have
  changed.
\<close>

theorem face_count_events_counterexample:
  "process_frame (ex_env 10 (Inr []) (Inl ModelError)) [1] ex_session
     = ([ev_error ''An internal error occurred.''],
        ex_session\<lparr>last_face_check_time := 10, last_faces := [], last_authorized := False,
                    last_phone_check_time := 10, face_app_calls := 2,
                    phone_detector_calls := 1\<rparr>)
   \<and> process_frame (ex_env 10 (Inr [ex_face [1], ex_face [2]]) (Inl ModelError)) [1] ex_session
     = ([ev_error ''An internal error occurred.''],
        ex_session\<lparr>last_face_check_time := 10, last_faces := [ex_face [1], ex_face [2]],
                    last_authorized := False, last_phone_check_time := 10, face_app_calls := 2,
                    phone_detector_calls := 1\<rparr>)"
  by (simp add: step_defs ex_defs config_defs)

theorem face_count_events_witness:
  "\<not> phone_raises (ex_env 10 (Inr []) (Inr False)) (Image [1]) ex_session
   \<and> ev_face_not_found 10 \<in> set (fst (process_frame (ex_env 10 (Inr []) (Inr False)) [1] ex_session))
   \<and> \<not> last_authorized (snd (process_frame (ex_env 10 (Inr []) (Inr False)) [1] ex_session))
   \<and> last_faces (snd (process_frame (ex_env 10 (Inr []) (Inr False)) [1] ex_session)) = []
   \<and> \<not> phone_raises (ex_env 10 (Inr [ex_face [1], ex_face [2]]) (Inr False)) (Image [1]) ex_session
   \<and> ev_multiple_faces 2 10
       \<in> set (fst (process_frame (ex_env 10 (Inr [ex_face [1], ex_face [2]]) (Inr False)) [1] ex_session))
   \<and> \<not> last_authorized
           (snd (process_frame (ex_env 10 (Inr [ex_face [1], ex_face [2]]) (Inr False)) [1] ex_session))"
proof -
  let ?e = "ex_env 10 (Inr []) (Inr False)"
  let ?s' = "ex_session\<lparr>last_face_check_time := 10, last_faces := [],
                      last_authorized := False, last_phone_check_time := 10,
                      face_app_calls := 2, phone_detector_calls := 1\<rparr>"
  let ?e2 = "ex_env 10 (Inr [ex_face [1], ex_face [2]]) (Inr False)"
  let ?s2 = "ex_session\<lparr>last_face_check_time := 10, last_faces := [ex_face [1], ex_face [2]],
                      last_authorized := False, last_phone_check_time := 10,
                      face_app_calls := 2, phone_detector_calls := 1\<rparr>"
  have h1: "decode_frame ?e [1] = Some (Image [1])" "decode_frame ?e2 [1] = Some (Image [1])"
    by (simp_all add: decode_frame_def ex_env_def)
  have h2: "time_now ?e - last_face_check_time ex_session \<ge> FACE_CHECK_INTERVAL"
    "time_now ?e2 - last_face_check_time ex_session \<ge> FACE_CHECK_INTERVAL"
    by (simp_all add: ex_defs config_defs)
  have h3: "face_get ?e (Image [1]) = Inr []"
    "face_get ?e2 (Image [1]) = Inr [ex_face [1], ex_face [2]]"
    by (simp_all add: ex_env_def)
  have h4: "length ([] :: face list) \<noteq> 1" "length [ex_face [1], ex_face [2]] \<noteq> 1"
    by simp_all
  have h5: "process_frame ?e [1] ex_session = ([ev_face_not_found 10], ?s')"
    by (simp add: step_defs ex_defs config_defs)
  have h6: "process_frame ?e2 [1] ex_session = ([ev_multiple_faces 2 10], ?s2)"
    by (simp add: step_defs ex_defs config_defs ev_multiple_faces_def)
  have h7: "\<not> phone_raises ?e (Image [1]) ex_session" "\<not> phone_raises ?e2 (Image [1]) ex_session"
    by (simp_all add: phone_raises_def ex_env_def)
  from face_count_events [OF h1(1) h2(1) h3(1) h4(1) h5]
    face_count_events [OF h1(2) h2(2) h3(2) h4(2) h6] h5 h6 h7
  show ?thesis by simp
qed

section \<open>Caching\<close>

lemma decode_frame_face_get [simp]: "decode_frame (e\<lparr>face_get := g\<rparr>) b = decode_frame e b"
  by (simp add: decode_frame_def)

lemma decode_frame_phone_detect [simp]: "decode_frame (e\<lparr>phone_detect := g\<rparr>) b = decode_frame e b"
  by (simp add: decode_frame_def)

lemma phone_check_face_get [simp]:
  "phone_check (e\<lparr>face_get := g\<rparr>) frame now s = phone_check e frame now s"
  by (simp add: phone_check_def)

lemma face_check_phone_detect [simp]:
  "face_check (e\<lparr>phone_detect := g\<rparr>) frame now s = face_check e frame now s"
  by (simp add: face_check_def)







section \<open>The two timers\<close>

text \<open>The two timers on a frame that is processed to the end.\<close>

lemma phone_timer_on_completed_frame:
  assumes "decode_frame e b = Some frame"
    and "process_frame_body e b s = (Inr evs, s')"
  shows "if last_phone_present s' then
           (case phone_presence_start_time s of
              None \<Rightarrow>
                phone_presence_start_time s' = Some (time_now e)
                \<and> \<not> emitted ''PHONE_DETECTED'' evs
            | Some t \<Rightarrow>
                phone_presence_start_time s' = Some t
                \<and> (if time_now e - t \<ge> PHONE_ALERT_SECONDS
                    then ev_phone_detected (time_now e) \<in> set evs
                    else \<not> emitted ''PHONE_DETECTED'' evs))
         else phone_presence_start_time s' = None \<and> \<not> emitted ''PHONE_DETECTED'' evs"
  using assms
proof (cases rule: process_frame_body_steps)
  case (returned ev1 s1 u s2 ev2 s3 ev3)
  let ?now = "time_now e"
  have start: "phone_presence_start_time s2 = phone_presence_start_time s"
    using returned(1,2) by (simp add: face_check_keeps phone_check_keeps)
  have present: "last_phone_present s' = last_phone_present s2"
    using returned(3,4) by (simp add: phone_alert_keeps distraction_alert_keeps)
  have start': "phone_presence_start_time s' = phone_presence_start_time s3"
    using returned(4) by (simp add: distraction_alert_keeps)
  have ev1: "\<not> emitted ''PHONE_DETECTED'' ev1"
    using returned(1) by (simp add: face_check_no_alert)
  have ev3: "\<not> emitted ''PHONE_DETECTED'' ev3"
    using distraction_alert_events [OF returned(4)] by auto
  from returned(5) have evs: "evs = ev1 @ ev2 @ ev3" by simp
  show ?thesis
    using returned(3) start present start' ev1 ev3 evs
    by (auto simp: phone_alert_def split: if_splits option.splits)
qed simp_all

lemma distraction_timer_on_completed_frame:
  assumes "decode_frame e b = Some frame"
    and "process_frame_body e b s = (Inr evs, s')"
  shows "(if attention_of s' < FOCUS_THRESHOLD \<and> last_authorized s' then
           (case distracted_start_time s of
              None \<Rightarrow>
                distracted_start_time s' = Some (time_now e)
                \<and> \<not> emitted ''LOOKING_AWAY'' evs
            | Some t \<Rightarrow>
                distracted_start_time s' = Some t
                \<and> (if time_now e - t \<ge> FOCUS_ALERT_TIME
                    then ev_looking_away (py_int (attention_of s')) (time_now e) \<in> set evs
                    else \<not> emitted ''LOOKING_AWAY'' evs))
         else distracted_start_time s' = None \<and> \<not> emitted ''LOOKING_AWAY'' evs)
       \<and> (\<not> last_authorized s' \<longrightarrow> attention_of s' = 0 \<and> distracted_start_time s' = None)"
  using assms
proof (cases rule: process_frame_body_steps)
  case (returned ev1 s1 u s2 ev2 s3 ev3)
  let ?now = "time_now e"
  have start: "distracted_start_time s3 = distracted_start_time s"
    using returned(1-3) by (simp add: face_check_keeps phone_check_keeps phone_alert_keeps)
  have att: "attention_of s' = attention_of s3"
    using returned(4) by (intro attention_of_cong) (simp_all add: distraction_alert_keeps)
  have auth: "last_authorized s' = last_authorized s3"
    using returned(4) by (simp add: distraction_alert_keeps)
  have ev1: "\<not> emitted ''LOOKING_AWAY'' ev1"
    using returned(1) by (simp add: face_check_no_alert)
  have ev2: "\<not> emitted ''LOOKING_AWAY'' ev2"
    using phone_alert_events [OF returned(3)] by auto
  from returned(5) have evs: "evs = ev1 @ ev2 @ ev3" by simp
  have zero: "\<not> last_authorized s3 \<Longrightarrow> attention_of s3 = 0"
    by (simp add: attention_of_def attention_formula_def Let_def)
  show ?thesis
    using returned(4) start att auth ev1 ev2 evs zero
    by (auto simp: distraction_alert_def split: if_splits option.splits)
qed simp_all

text \<open>
  C3, as amended. On a frame that does not fail (it is decoded and no exception is
  raised): if the cached phone state is present and no start time is recorded, the
  start time becomes the time of the frame and no PHONE\_DETECTED is emitted; if it is
  present and a start time \<open>t\<close> is recorded, the start time stays and PHONE\_DETECTED is
  emitted exactly when the time of the frame minus \<open>t\<close> is at least the phone-alert
  duration (so on every such frame); if it is absent, the start time is reset and no
  PHONE\_DETECTED is emitted. On a frame that fails the call returns one ERROR event
  and the start time keeps its value.
\<close>

theorem phone_hysteresis:
  assumes "process_frame e b s = (evs, s')"
  shows "if frame_fails e b s then
           (evs = [ev_error ''Invalid frame data.'']
              \<or> evs = [ev_error ''An internal error occurred.''])
           \<and> phone_presence_start_time s' = phone_presence_start_time s
         else if last_phone_present s' then
           (case phone_presence_start_time s of
              None \<Rightarrow>
                phone_presence_start_time s' = Some (time_now e)
                \<and> \<not> emitted ''PHONE_DETECTED'' evs
            | Some t \<Rightarrow>
                phone_presence_start_time s' = Some t
                \<and> (if time_now e - t \<ge> PHONE_ALERT_SECONDS
                    then ev_phone_detected (time_now e) \<in> set evs
                    else \<not> emitted ''PHONE_DETECTED'' evs))
         else phone_presence_start_time s' = None \<and> \<not> emitted ''PHONE_DETECTED'' evs"
proof (cases "frame_fails e b s")
  case True
  with process_frame_failed [OF True assms] show ?thesis by simp
next
  case False
  from process_frame_completed [OF False assms] obtain frame
    where "decode_frame e b = Some frame" "process_frame_body e b s = (Inr evs, s')" by blast
  from phone_timer_on_completed_frame [OF this] False show ?thesis by simp
qed

text \<open>
  The claim as stated fails: the phone is cached as present since 3, at 5 the face model
  raises, and the call returns the ERROR event without PHONE\_DETECTED.
\<close>

theorem phone_hysteresis_counterexample:
  "last_phone_present ex_phone_armed
   \<and> phone_presence_start_time ex_phone_armed = Some 3
   \<and> PHONE_ALERT_SECONDS \<le> 5 - 3
   \<and> process_frame (ex_env 5 (Inl ModelError) (Inr True)) [1] ex_phone_armed
       = ([ev_error ''An internal error occurred.''],
          ex_phone_armed\<lparr>last_face_check_time := 5, face_app_calls := 2\<rparr>)
   \<and> last_phone_present (ex_phone_armed\<lparr>last_face_check_time := 5, face_app_calls := 2\<rparr>)
   \<and> \<not> emitted ''PHONE_DETECTED'' [ev_error ''An internal error occurred.'']"
  by (simp add: ex_phone_armed_eq) (simp add: eval_defs)

theorem phone_hysteresis_witness:
  "process_frame (ex_env 3 (Inl ModelError) (Inr True)) [1] ex_session = ([], ex_phone_armed)
   \<and> phone_presence_start_time ex_phone_armed = Some 3
   \<and> \<not> frame_fails (ex_env 4 (Inl ModelError) (Inl ModelError)) [1] ex_phone_armed
   \<and> process_frame (ex_env 4 (Inl ModelError) (Inl ModelError)) [1] ex_phone_armed
       = ([ev_phone_detected 4], ex_phone_armed)
   \<and> process_frame (ex_env (9 / 2) (Inl ModelError) (Inl ModelError)) [1] ex_phone_armed
       = ([ev_phone_detected (9 / 2)], ex_phone_armed)
   \<and> fst (process_frame (ex_env (39 / 10) (Inl ModelError) (Inl ModelError)) [1] ex_phone_armed) = []
   \<and> phone_presence_start_time
        (snd (process_frame (ex_env 6 (Inr [ex_face [1, 0, 0, 0, 0]]) (Inr False)) [1] ex_phone_armed))
       = None
   \<and> frame_fails (ex_env 5 (Inl ModelError) (Inr True)) [1] ex_phone_armed
   \<and> phone_presence_start_time
        (snd (process_frame (ex_env 5 (Inl ModelError) (Inr True)) [1] ex_phone_armed)) = Some 3"
proof -
  let ?e = "ex_env 4 (Inl ModelError) (Inl ModelError)"
  let ?f = "ex_env 5 (Inl ModelError) (Inr True)"
  let ?sf = "ex_phone_armed\<lparr>last_face_check_time := 5, face_app_calls := 2\<rparr>"
  have h0: "process_frame (ex_env 3 (Inl ModelError) (Inr True)) [1] ex_session = ([], ex_phone_armed)"
    by (simp add: ex_phone_armed_eq) (simp add: eval_defs)
  have h1: "\<not> frame_fails ?e [1] ex_phone_armed"
    by (simp add: ex_phone_armed_eq) (simp add: frame_fails_def eval_defs)
  have h2: "process_frame ?e [1] ex_phone_armed = ([ev_phone_detected 4], ex_phone_armed)"
    by (simp add: ex_phone_armed_eq) (simp add: eval_defs)
  have h3: "process_frame (ex_env (9 / 2) (Inl ModelError) (Inl ModelError)) [1] ex_phone_armed
       = ([ev_phone_detected (9 / 2)], ex_phone_armed)"
    by (simp add: ex_phone_armed_eq) (simp add: eval_defs)
  have h4: "fst (process_frame (ex_env (39 / 10) (Inl ModelError) (Inl ModelError)) [1] ex_phone_armed) = []"
    by (simp add: ex_phone_armed_eq) (simp add: eval_defs)
  have h5: "phone_presence_start_time
        (snd (process_frame (ex_env 6 (Inr [ex_face [1, 0, 0, 0, 0]]) (Inr False)) [1] ex_phone_armed))
       = None"
    by (simp add: ex_phone_armed_eq) (simp add: eval_defs)
  have h6: "frame_fails ?f [1] ex_phone_armed"
    by (simp add: ex_phone_armed_eq) (simp add: frame_fails_def eval_defs)
  have h7: "process_frame ?f [1] ex_phone_armed = ([ev_error ''An internal error occurred.''], ?sf)"
    by (simp add: ex_phone_armed_eq) (simp add: eval_defs)
  have h8: "phone_presence_start_time ex_phone_armed = Some 3"
    by (simp add: ex_phone_armed_eq)
  from phone_hysteresis [OF h2] phone_hysteresis [OF h7] h0 h1 h2 h3 h4 h5 h6 h7 h8
  show ?thesis by simp
qed

text \<open>
  C4, as amended. On a frame that does not fail: if the attention score is below the
  focus threshold and the person is authorized, the distracted start time is armed when
  unset (no LOOKING\_AWAY on that frame), and otherwise stays, with a LOOKING\_AWAY event
  carrying the truncated attention score emitted exactly when the time of the frame
  minus the start time is at least the focus-alert duration; in every other case the
  start time is reset, also for an unauthorized person, whose attention is 0. On a
  frame that fails the call returns one ERROR event and the start time keeps its value.
\<close>

theorem distraction_hysteresis:
  assumes "process_frame e b s = (evs, s')"
  shows "if frame_fails e b s then
           (evs = [ev_error ''Invalid frame data.'']
              \<or> evs = [ev_error ''An internal error occurred.''])
           \<and> distracted_start_time s' = distracted_start_time s
         else if attention_of s' < FOCUS_THRESHOLD \<and> last_authorized s' then
           (case distracted_start_time s of
              None \<Rightarrow>
                distracted_start_time s' = Some (time_now e)
                \<and> \<not> emitted ''LOOKING_AWAY'' evs
            | Some t \<Rightarrow>
                distracted_start_time s' = Some t
                \<and> (if time_now e - t \<ge> FOCUS_ALERT_TIME
                    then ev_looking_away (py_int (attention_of s')) (time_now e) \<in> set evs
                    else \<not> emitted ''LOOKING_AWAY'' evs))
         else distracted_start_time s' = None \<and> \<not> emitted ''LOOKING_AWAY'' evs
                \<and> (\<not> last_authorized s' \<longrightarrow> attention_of s' = 0)"
proof (cases "frame_fails e b s")
  case True
  with process_frame_failed [OF True assms] show ?thesis by simp
next
  case False
  from process_frame_completed [OF False assms] obtain frame
    where "decode_frame e b = Some frame" "process_frame_body e b s = (Inr evs, s')" by blast
  from distraction_timer_on_completed_frame [OF this] False show ?thesis
    by (auto split: if_splits)
qed

text \<open>
  The claim as stated fails: the timer runs since 5, at 10 the face check finds somebody
  else and the phone model raises; the person is unauthorized after the call and the
  start time is still 5.
\<close>

theorem distraction_hysteresis_counterexample:
  "process_frame (ex_env 10 (Inr [ex_away_face [0, 1, 0, 0, 0]]) (Inl ModelError)) [1] ex_distracted
     = ([ev_error ''An internal error occurred.''],
        ex_distracted\<lparr>last_face_check_time := 10, last_faces := [ex_away_face [0, 1, 0, 0, 0]],
                       last_authorized := False, last_phone_check_time := 10,
                       face_app_calls := 3, phone_detector_calls := 2\<rparr>)
   \<and> distracted_start_time
        (ex_distracted\<lparr>last_face_check_time := 10, last_faces := [ex_away_face [0, 1, 0, 0, 0]],
                       last_authorized := False, last_phone_check_time := 10,
                       face_app_calls := 3, phone_detector_calls := 2\<rparr>) = Some 5"
  by (simp add: ex_distracted_eq) (simp add: eval_defs)

theorem distraction_hysteresis_witness:
  "attention_of ex_distracted = 50 \<and> last_authorized ex_distracted
   \<and> distracted_start_time ex_distracted = Some 5
   \<and> fst (process_frame (ex_env 5 (Inr [ex_away_face [1, 0, 0, 0, 0]]) (Inr False)) [1] ex_session) = []
   \<and> fst (process_frame (ex_env 7 (Inl ModelError) (Inl ModelError)) [1] ex_distracted) = []
   \<and> \<not> frame_fails (ex_env 8 (Inl ModelError) (Inr False)) [1] ex_distracted
   \<and> fst (process_frame (ex_env 8 (Inl ModelError) (Inr False)) [1] ex_distracted)
       = [ev_looking_away 50 8]
   \<and> \<not> frame_fails (ex_env 10 (Inr [ex_away_face [0, 1, 0, 0, 0]]) (Inr False)) [1] ex_distracted
   \<and> distracted_start_time
        (snd (process_frame (ex_env 10 (Inr [ex_away_face [0, 1, 0, 0, 0]]) (Inr False)) [1] ex_distracted))
       = None"
proof -
  let ?e = "ex_env 8 (Inl ModelError) (Inr False)"
  let ?s' = "ex_distracted\<lparr>last_phone_check_time := 8, phone_detector_calls := 2\<rparr>"
  let ?g = "ex_env 10 (Inr [ex_away_face [0, 1, 0, 0, 0]]) (Inr False)"
  have h0: "attention_of ex_distracted = 50" "last_authorized ex_distracted"
    "distracted_start_time ex_distracted = Some 5"
    by (simp_all add: ex_distracted_eq) (simp_all add: eval_defs)
  have h1: "\<not> frame_fails ?e [1] ex_distracted"
    by (simp add: ex_distracted_eq) (simp add: frame_fails_def eval_defs)
  have h2: "process_frame ?e [1] ex_distracted = ([ev_looking_away 50 8], ?s')"
    by (simp add: ex_distracted_eq) (simp add: eval_defs)
  have h3: "fst (process_frame (ex_env 5 (Inr [ex_away_face [1, 0, 0, 0, 0]]) (Inr False)) [1] ex_session) = []"
    by (simp add: eval_defs)
  have h4: "fst (process_frame (ex_env 7 (Inl ModelError) (Inl ModelError)) [1] ex_distracted) = []"
    by (simp add: ex_distracted_eq) (simp add: eval_defs)
  have h5: "distracted_start_time (snd (process_frame ?g [1] ex_distracted)) = None"
    by (simp add: ex_distracted_eq) (simp add: eval_defs)
  have h6: "\<not> frame_fails ?g [1] ex_distracted"
    by (simp add: ex_distracted_eq) (simp add: frame_fails_def eval_defs)
  from distraction_hysteresis [OF h2] h0 h1 h2 h3 h4 h5 h6
  show ?thesis by simp
qed

section \<open>The attention score\<close>

lemma attention_formula_le_100: "attention_formula fp auth h ph \<le> 100"
proof (cases "h > 8 / 10")
  case True
  then show ?thesis by (simp add: attention_formula_def Let_def)
next
  case False
  then show ?thesis by (simp add: attention_formula_def Let_def config_defs)
qed

text \<open>
  C8. With face score 1 (one cached, authorized face), head score 1 and no phone the
  attention score is exactly 100; for every input it is at most 100; without exactly
  one authorized cached face it is 0.
\<close>

theorem attention_score_range:
  "attention_formula True True 1 False = 100
   \<and> attention_formula face_present authorized head_score phone_present \<le> 100
   \<and> attention_of s \<le> 100
   \<and> (\<not> (face_present \<and> authorized) \<longrightarrow>
        attention_formula face_present authorized head_score phone_present = 0)
   \<and> (\<not> (length (last_faces s) = 1 \<and> last_authorized s) \<longrightarrow> attention_of s = 0)
   \<and> (length (last_faces s) = 1 \<and> last_authorized s
        \<and> compute_head_score (last_faces s ! 0) = 1 \<and> \<not> last_phone_present s \<longrightarrow>
        attention_of s = 100)"
proof (intro conjI impI)
  show "attention_formula True True 1 False = 100"
    by (simp add: attention_formula_def config_defs)
  show "attention_formula face_present authorized head_score phone_present \<le> 100"
    by (rule attention_formula_le_100)
  show "attention_of s \<le> 100"
    by (simp add: attention_of_def Let_def attention_formula_le_100)
  show "attention_formula face_present authorized head_score phone_present = 0"
    if "\<not> (face_present \<and> authorized)"
    using that by (simp add: attention_formula_def)
  show "attention_of s = 0" if "\<not> (length (last_faces s) = 1 \<and> last_authorized s)"
    using that by (simp add: attention_of_def attention_formula_def Let_def)
  show "attention_of s = 100"
    if "length (last_faces s) = 1 \<and> last_authorized s
        \<and> compute_head_score (last_faces s ! 0) = 1 \<and> \<not> last_phone_present s"
    using that by (simp add: attention_of_def attention_formula_def Let_def config_defs)
qed

theorem attention_score_range_witness:
  "length (last_faces ex_session) = 1 \<and> last_authorized ex_session
   \<and> compute_head_score (last_faces ex_session ! 0) = 1 \<and> \<not> last_phone_present ex_session
   \<and> attention_of ex_session = 100
   \<and> \<not> (length (last_faces init_session) = 1 \<and> last_authorized init_session)
   \<and> attention_of init_session = 0"
proof -
  have h1: "length (last_faces ex_session) = 1 \<and> last_authorized ex_session
        \<and> compute_head_score (last_faces ex_session ! 0) = 1 \<and> \<not> last_phone_present ex_session"
    by (simp add: ex_session_eq ex_head)
  have h2: "\<not> (length (last_faces init_session) = 1 \<and> last_authorized init_session)"
    by (simp add: init_session_def)
  from attention_score_range [of True True 1 False ex_session] h1
  have "attention_of ex_session = 100" by blast
  moreover from attention_score_range [of True True 1 False init_session] h2
  have "attention_of init_session = 0" by blast
  ultimately show ?thesis using h1 h2 by blast
qed

section \<open>Registration\<close>

lemma register_when_registered:
  "ref_embedding s = Some r \<Longrightarrow>
     register_user_from_frame e b s = ((False, ''User is already registered.''), s)"
  by (simp add: register_user_from_frame_def)

lemma handle_keeps_ref_embedding:
  "ref_embedding (handle c s) = Some r" if "ref_embedding s = Some r"
proof (cases c)
  case (Pair e rq)
  then show ?thesis
    using that
    by (cases rq) (simp_all add: register_when_registered process_frame_ref_embedding)
qed

lemma run_keeps_ref_embedding:
  "ref_embedding s = Some r \<Longrightarrow> ref_embedding (run cs s) = Some r"
proof (induction cs arbitrary: s)
  case Nil
  then show ?case by simp
next
  case (Cons c cs)
  from Cons.prems have "ref_embedding (handle c s) = Some r"
    by (rule handle_keeps_ref_embedding)
  then show ?case by (simp add: Cons.IH)
qed

text \<open>
  C5. On a session whose reference embedding is set, \<open>register_user_from_frame\<close>
  returns failure with the already-registered message and the session unchanged, the
  call counts of both models included; and whatever calls follow, the reference
  embedding stays the one that was set.
\<close>

theorem register_when_registered_rejected:
  assumes "ref_embedding s = Some r"
  shows "register_user_from_frame e b s = ((False, ''User is already registered.''), s)
       \<and> face_app_calls (snd (register_user_from_frame e b s)) = face_app_calls s
       \<and> phone_detector_calls (snd (register_user_from_frame e b s)) = phone_detector_calls s
       \<and> ref_embedding (run cs s) = Some r"
  using assms by (simp add: register_when_registered run_keeps_ref_embedding)

theorem register_when_registered_witness:
  "ref_embedding ex_session = Some [1, 0, 0, 0, 0]
   \<and> register_user_from_frame (ex_env 10 (Inr [ex_face [0, 1, 0, 0, 0]]) (Inr False)) [1] ex_session
       = ((False, ''User is already registered.''), ex_session)
   \<and> ref_embedding
       (run [(ex_env 10 (Inr [ex_face [0, 1, 0, 0, 0]]) (Inr False), Register [1]),
             (ex_env 11 (Inr [ex_face [0, 1, 0, 0, 0]]) (Inr False), ProcessFrame [1]),
             (ex_env 12 (Inr [ex_face [0, 1, 0, 0, 0]]) (Inr False), Register [1])] ex_session)
       = Some [1, 0, 0, 0, 0]"
proof -
  have h: "ref_embedding ex_session = Some [1, 0, 0, 0, 0]"
    by (simp add: ex_session_eq)
  let ?e = "ex_env 10 (Inr [ex_face [0, 1, 0, 0, 0]]) (Inr False)"
  let ?cs = "[(ex_env 10 (Inr [ex_face [0, 1, 0, 0, 0]]) (Inr False), Register [1]),
             (ex_env 11 (Inr [ex_face [0, 1, 0, 0, 0]]) (Inr False), ProcessFrame [1]),
             (ex_env 12 (Inr [ex_face [0, 1, 0, 0, 0]]) (Inr False), Register [1])]"
  from register_when_registered_rejected [OF h, of ?e "[1]" ?cs] h show ?thesis by blast
qed

section \<open>Failures\<close>

text \<open>
  C2, as amended. A call in which decoding fails returns exactly one ERROR event and
  leaves the whole session as it was. A call in which an exception is raised returns
  exactly one ERROR event and leaves the reference embedding, the cached phone presence
  and both timer start times as they were; the assignments made before the exception
  stay: at least one of the two last-check times has moved to the time of the frame.
\<close>

theorem process_frame_failure:
  "(decode_frame e b = None \<longrightarrow>
      process_frame e b s = ([ev_error ''Invalid frame data.''], s))
   \<and> (\<forall>x s'. process_frame_body e b s = (Inl x, s') \<longrightarrow>
        process_frame e b s = ([ev_error ''An internal error occurred.''], s')
        \<and> ref_embedding s' = ref_embedding s
        \<and> last_phone_present s' = last_phone_present s
        \<and> phone_presence_start_time s' = phone_presence_start_time s
        \<and> distracted_start_time s' = distracted_start_time s
        \<and> (last_face_check_time s' = time_now e
              \<and> last_face_check_time s' \<noteq> last_face_check_time s
            \<or> last_phone_check_time s' = time_now e
              \<and> last_phone_check_time s' \<noteq> last_phone_check_time s))"
proof (intro conjI impI allI)
  assume "decode_frame e b = None"
  then show "process_frame e b s = ([ev_error ''Invalid frame data.''], s)"
    by (simp add: process_frame_def process_frame_body_undecoded)
next
  fix x s'
  assume raised: "process_frame_body e b s = (Inl x, s')"
  then show "process_frame e b s = ([ev_error ''An internal error occurred.''], s')"
    by (simp add: process_frame_def)
  from raised obtain frame where dec: "decode_frame e b = Some frame"
    using process_frame_body_raised_decoded by blast
  from dec raised
  have "ref_embedding s' = ref_embedding s
        \<and> last_phone_present s' = last_phone_present s
        \<and> phone_presence_start_time s' = phone_presence_start_time s
        \<and> distracted_start_time s' = distracted_start_time s
        \<and> (last_face_check_time s' = time_now e \<and> last_face_check_time s \<noteq> time_now e
            \<or> last_phone_check_time s' = time_now e \<and> last_phone_check_time s \<noteq> time_now e)"
  proof (cases rule: process_frame_body_steps)
    case (face_raised y)
    then show ?thesis
      using face_check_raised [of e frame "time_now e" s y s']
      by (simp add: face_check_keeps)
  next
    case (phone_raised y ev1 s1)
    then show ?thesis
      using phone_check_raised [of e frame "time_now e" s1 y s']
      by (simp add: face_check_keeps phone_check_keeps)
  next
    case (returned ev1 s1 u s2 ev2 s3 ev3)
    then show ?thesis by simp
  qed
  then show "ref_embedding s' = ref_embedding s"
    "last_phone_present s' = last_phone_present s"
    "phone_presence_start_time s' = phone_presence_start_time s"
    "distracted_start_time s' = distracted_start_time s"
    "last_face_check_time s' = time_now e
       \<and> last_face_check_time s' \<noteq> last_face_check_time s
     \<or> last_phone_check_time s' = time_now e
       \<and> last_phone_check_time s' \<noteq> last_phone_check_time s"
    by auto
qed

text \<open>
  The claim as stated fails: the face model raises on a frame where its interval has
  elapsed, the call returns the ERROR event, and \<open>last_face_check_time\<close> has moved
  from 0 to 10.
\<close>

theorem process_frame_failure_counterexample:
  "fst (process_frame_body (ex_env 10 (Inl ModelError) (Inr False)) [1] ex_session) = Inl ModelError
   \<and> fst (process_frame (ex_env 10 (Inl ModelError) (Inr False)) [1] ex_session)
       = [ev_error ''An internal error occurred.'']
   \<and> last_face_check_time ex_session = 0
   \<and> last_face_check_time (snd (process_frame (ex_env 10 (Inl ModelError) (Inr False)) [1] ex_session)) = 10"
  by (simp add: step_defs ex_defs config_defs)

theorem process_frame_failure_witness:
  "process_frame (ex_env 10 (Inr []) (Inr False)) [] ex_session
     = ([ev_error ''Invalid frame data.''], ex_session)
   \<and> process_frame (ex_env 10 (Inr []) (Inl ModelError)) [1] ex_session
     = ([ev_error ''An internal error occurred.''],
        ex_session\<lparr>last_face_check_time := 10, last_faces := [], last_authorized := False,
                    last_phone_check_time := 10, face_app_calls := 2,
                    phone_detector_calls := 1\<rparr>)"
proof -
  let ?e1 = "ex_env 10 (Inr []) (Inr False)"
  let ?e2 = "ex_env 10 (Inr []) (Inl ModelError)"
  let ?s' = "ex_session\<lparr>last_face_check_time := 10, last_faces := [], last_authorized := False,
                    last_phone_check_time := 10, face_app_calls := 2,
                    phone_detector_calls := 1\<rparr>"
  have h1: "decode_frame ?e1 [] = None"
    by (simp add: decode_frame_def ex_env_def)
  have h2: "process_frame_body ?e2 [1] ex_session = (Inl ModelError, ?s')"
    by (simp add: step_defs ex_defs config_defs)
  from process_frame_failure [of ?e1 "[]" ex_session] h1
  have "process_frame ?e1 [] ex_session = ([ev_error ''Invalid frame data.''], ex_session)"
    by blast
  moreover from process_frame_failure [of ?e2 "[1]" ex_session] h2
  have "process_frame ?e2 [1] ex_session = ([ev_error ''An internal error occurred.''], ?s')"
    by blast
  ultimately show ?thesis by simp
qed

text \<open>
  C10. Before any registration, on a frame on which the face check runs and the model
  yields one face, the similarity computation raises on the absent reference embedding;
  the call returns the ERROR event and makes no authorization decision.
\<close>

theorem unregistered_single_face_error:
  assumes "ref_embedding s = None"
    and "decode_frame e b = Some frame"
    and "time_now e - last_face_check_time s \<ge> FACE_CHECK_INTERVAL"
    and "face_get e frame = Inr [f]"
  shows "fst (process_frame_body e b s) = Inl TypeError
       \<and> fst (process_frame e b s) = [ev_error ''An internal error occurred.'']
       \<and> last_authorized (snd (process_frame e b s)) = last_authorized s"
  using assms
  by (simp add: process_frame_def process_frame_body_def face_check_def cosine_sim_def Let_def)

theorem unregistered_single_face_error_witness:
  "ref_embedding init_session = None
   \<and> fst (process_frame (ex_env 10 (Inr [ex_face [1, 0, 0, 0, 0]]) (Inr False)) [1] init_session)
       = [ev_error ''An internal error occurred.'']
   \<and> \<not> last_authorized (snd (process_frame (ex_env 10 (Inr [ex_face [1, 0, 0, 0, 0]]) (Inr False)) [1] init_session))"
proof -
  let ?e = "ex_env 10 (Inr [ex_face [1, 0, 0, 0, 0]]) (Inr False)"
  have h1: "ref_embedding init_session = None"
    by (simp add: init_session_def)
  have h2: "decode_frame ?e [1] = Some (Image [1])"
    by (simp add: decode_frame_def ex_env_def)
  have h3: "time_now ?e - last_face_check_time init_session \<ge> FACE_CHECK_INTERVAL"
    by (simp add: ex_env_def init_session_def config_defs)
  have h4: "face_get ?e (Image [1]) = Inr [ex_face [1, 0, 0, 0, 0]]"
    by (simp add: ex_env_def)
  from unregistered_single_face_error [OF h1 h2 h3 h4] h1
  show ?thesis by (simp add: init_session_def)
qed

section \<open>Event records\<close>

text \<open>
  C9, as amended. Every event that \<open>process_frame\<close> returns is either an ERROR event,
  which carries its kind and a message and no timestamp, or one of the five other
  kinds with its payload and a timestamp, the time of the frame.
\<close>

theorem event_timestamps:
  assumes "ev \<in> set (fst (process_frame e b s))"
  shows "(\<exists>msg. ev = ev_error msg) \<and> map fst ev = [''event'', ''message'']
           \<and> map_of ev ''timestamp'' = None
       \<or> map_of ev ''timestamp'' = Some (PFloat (time_now e))
           \<and> (ev = ev_face_not_found (time_now e)
              \<or> (\<exists>n. ev = ev_multiple_faces n (time_now e))
              \<or> (\<exists>x. ev = ev_unauthorized_person x (time_now e))
              \<or> ev = ev_phone_detected (time_now e)
              \<or> (\<exists>k. ev = ev_looking_away k (time_now e)))"
  using process_frame_events [OF assms]
  by (elim disjE exE) (simp_all add: ev_defs)

text \<open>
  The claim as stated fails: on a frame that cannot be decoded the one event returned
  has no timestamp.
\<close>

theorem event_timestamps_counterexample:
  "fst (process_frame (ex_env 10 (Inr []) (Inr False)) [] ex_session)
     = [ev_error ''Invalid frame data.'']
   \<and> map_of (ev_error ''Invalid frame data.'') ''timestamp'' = None"
  by (simp add: step_defs ex_defs ev_defs)

theorem event_timestamps_witness:
  "ev_face_not_found 10 \<in> set (fst (process_frame (ex_env 10 (Inr []) (Inr False)) [1] ex_session))
   \<and> map_of (ev_face_not_found 10) ''timestamp'' = Some (PFloat 10)
   \<and> ev_error ''An internal error occurred.''
       \<in> set (fst (process_frame (ex_env 10 (Inl ModelError) (Inr False)) [1] ex_session))
   \<and> map_of (ev_error ''An internal error occurred.'') ''timestamp'' = None"
proof -
  let ?e1 = "ex_env 10 (Inr []) (Inr False)"
  let ?e2 = "ex_env 10 (Inl ModelError) (Inr False)"
  have h1: "ev_face_not_found 10 \<in> set (fst (process_frame ?e1 [1] ex_session))"
    by (simp add: step_defs ex_defs config_defs)
  have h2: "ev_error ''An internal error occurred.'' \<in> set (fst (process_frame ?e2 [1] ex_session))"
    by (simp add: step_defs ex_defs config_defs)
  from event_timestamps [OF h1] event_timestamps [OF h2] h1 h2
  show ?thesis by (simp add: ev_defs ex_env_def)
qed

end
